theory Spec2Isabelle
  imports Main
begin

section \<open>JavaScript values and object literals\<close>

text \<open>
  The client is TypeScript that runs as JavaScript: request bodies, configuration
  objects, headers, request descriptors and transport errors are all plain objects that
  the code combines with object spread. A value is therefore one of the JavaScript
  kinds below. Numbers are only carried by this code, never computed with; the model
  holds the integer ones that a JavaScript number holds exactly, of magnitude below
  \<open>2^53\<close> (\<open>Date.now()\<close>, \<open>3000\<close>, \<open>5000\<close>, \<open>0\<close>). A string is its
  sequence of bytes. A function value (\<open>validateStatus\<close>) is opaque: it is named by its
  source text.

  An object is written as the list of the property definitions that create it, in
  source order, exactly as an object literal lists them. As in JavaScript a key may be
  defined more than once in a literal: the last definition gives the value, the first
  one the position of the key.
\<close>

datatype jsval =
    Undefined
  | Null
  | Bool bool
  | Num int
  | Str string
  | Fn string
  | Obj "(string \<times> jsval) list"

text \<open>Truthiness, as \<open>!x\<close> and \<open>x || y\<close> test it.\<close>

fun truthy :: "jsval \<Rightarrow> bool" where
  "truthy Undefined = False"
| "truthy Null = False"
| "truthy (Bool b) = b"
| "truthy (Num n) = (n \<noteq> 0)"
| "truthy (Str s) = (s \<noteq> [])"
| "truthy (Fn f) = True"
| "truthy (Obj es) = True"

text \<open>\<open>a || b\<close> on values that are already evaluated.\<close>

definition js_or :: "jsval \<Rightarrow> jsval \<Rightarrow> jsval" where
  "js_or a b = (if truthy a then a else b)"

subsection \<open>Property keys and their order\<close>

text \<open>
  The own keys of an object are enumerated with the array indices first, in ascending
  numeric order, and then the other strings in the order of their creation. An array
  index is the canonical decimal form of an integer from 0 to \<open>2^32 - 2\<close>.
\<close>

definition digit_of :: "char \<Rightarrow> nat option" where
  "digit_of c =
     (let n = (of_char c :: nat) in if 48 \<le> n \<and> n \<le> 57 then Some (n - 48) else None)"

fun decimal_value :: "nat \<Rightarrow> string \<Rightarrow> nat option" where
  "decimal_value acc [] = Some acc"
| "decimal_value acc (c # cs) =
     (case digit_of c of None \<Rightarrow> None | Some d \<Rightarrow> decimal_value (10 * acc + d) cs)"

definition array_index :: "string \<Rightarrow> nat option" where
  "array_index k =
     (if k = [] \<or> (1 < length k \<and> hd k = CHR ''0'') then None
      else case decimal_value 0 k of
             None \<Rightarrow> None
           | Some n \<Rightarrow> if n \<le> 4294967294 then Some n else None)"

definition index_rank :: "string \<Rightarrow> nat" where
  "index_rank k = (case array_index k of Some n \<Rightarrow> n | None \<Rightarrow> 0)"

definition own_keys :: "(string \<times> jsval) list \<Rightarrow> string list" where
  "own_keys es =
     (let ks = rev (remdups (rev (map fst es)))
      in sort_key index_rank (filter (\<lambda>k. array_index k \<noteq> None) ks)
         @ filter (\<lambda>k. array_index k = None) ks)"

text \<open>Reading a key from a list of property definitions: the last definition wins.\<close>

definition lookup :: "(string \<times> jsval) list \<Rightarrow> string \<Rightarrow> jsval option" where
  "lookup es k = map_of (rev es) k"

text \<open>
  The object that the literal \<open>{k1: v1, k2: v2, ...}\<close> creates: its own keys in
  enumeration order, each with the value last defined for it.
\<close>

definition object_literal :: "(string \<times> jsval) list \<Rightarrow> (string \<times> jsval) list" where
  "object_literal es =
     map (\<lambda>k. (k, case lookup es k of Some v \<Rightarrow> v | None \<Rightarrow> Undefined)) (own_keys es)"

subsection \<open>Spread and member access\<close>

fun digit_char :: "nat \<Rightarrow> char" where
  "digit_char d = ''0123456789'' ! (d mod 10)"

fun show_nat :: "nat \<Rightarrow> string" where
  "show_nat n = (if n < 10 then [digit_char n] else show_nat (n div 10) @ [digit_char n])"

declare show_nat.simps [simp del]

text \<open>
  \<open>...x\<close> inside an object literal contributes the own enumerable properties of \<open>x\<close>:
  those of an object, the characters of a string under their indices, and nothing for
  \<open>undefined\<close>, \<open>null\<close>, a boolean, a number or a function.
\<close>

fun spread :: "jsval \<Rightarrow> (string \<times> jsval) list" where
  "spread (Obj es) = object_literal es"
| "spread (Str s) = map (\<lambda>i. (show_nat i, Str [s ! i])) [0..<length s]"
| "spread v = []"

text \<open>
  \<open>x.k\<close>: reading a property of \<open>undefined\<close> or \<open>null\<close> throws a TypeError; an object
  yields the value of its own property or \<open>undefined\<close>. The names this code reads
  (\<open>headers\<close>, \<open>rootUrl\<close>, \<open>response\<close>, \<open>data\<close>, \<open>error\<close>) are not properties of the
  prototypes of strings, numbers, booleans, functions or plain objects, so there the
  result is \<open>undefined\<close>.
\<close>

datatype error = TypeError string

fun js_member :: "jsval \<Rightarrow> string \<Rightarrow> jsval" where
  "js_member (Obj es) k = (case lookup es k of Some v \<Rightarrow> v | None \<Rightarrow> Undefined)"
| "js_member v k = Undefined"

fun member_access :: "jsval \<Rightarrow> string \<Rightarrow> error + jsval" where
  "member_access Undefined k =
     Inl (TypeError (''Cannot read property '' @ k @ '' of undefined''))"
| "member_access Null k =
     Inl (TypeError (''Cannot read property '' @ k @ '' of null''))"
| "member_access v k = Inr (js_member v k)"

definition bind_err :: "error + 'a \<Rightarrow> ('a \<Rightarrow> error + 'b) \<Rightarrow> error + 'b" where
  "bind_err m f = (case m of Inl x \<Rightarrow> Inl x | Inr v \<Rightarrow> f v)"

section \<open>The program's environment\<close>

text \<open>
  The libraries the client imports are not part of it and are parameters of the model:
  the clock (\<open>Date.now()\<close>, read once per signature), the keyed hash
  (\<open>crypto.createHmac('sha256', secret).update(msg).digest('hex')\<close>), the query-string
  serializer (\<open>qs.stringify\<close>) and the transport (\<open>axios\<close>, which resolves with a
  response, \<open>Inr\<close>, or rejects with an error value, \<open>Inl\<close>).
\<close>

record env =
  Date_now :: int
  createHmac_sha256 :: "string \<Rightarrow> string \<Rightarrow> string"
  qs_stringify :: "jsval \<Rightarrow> string"
  axios :: "jsval \<Rightarrow> jsval + jsval"

section \<open>The signer\<close>

record ISignature =
  digest :: string
  body :: jsval

text \<open>The earlier variant: \<open>signedBody = { ...postData, timestamp }\<close>.\<close>

definition signedBody :: "env \<Rightarrow> jsval \<Rightarrow> (string \<times> jsval) list" where
  "signedBody e postData =
     object_literal (spread postData @ [(''timestamp'', Num (Date_now e))])"

definition signMessage :: "env \<Rightarrow> jsval \<Rightarrow> string \<Rightarrow> ISignature" where
  "signMessage e postData secret =
     (let sb = signedBody e postData;
          dg = createHmac_sha256 e secret (qs_stringify e (Obj sb))
      in \<lparr>digest = dg,
          body = Obj (object_literal (spread (Obj sb) @ [(''signature'', Str dg)]))\<rparr>)"

text \<open>The later variant also injects the fixed receive window of its default configuration.\<close>

definition defaultConfig_rw :: jsval where
  "defaultConfig_rw =
     Obj [(''recvWindow'', Num 5000),
          (''rootUrl'', Str ''https://api.binance.com''),
          (''timeout'', Num 3000),
          (''version'', Str ''v3'')]"

definition signedBody_rw :: "env \<Rightarrow> jsval \<Rightarrow> (string \<times> jsval) list" where
  "signedBody_rw e postData =
     object_literal (spread postData
       @ [(''timestamp'', Num (Date_now e)),
          (''recvWindow'', js_member defaultConfig_rw ''recvWindow'')])"

definition signMessage_rw :: "env \<Rightarrow> jsval \<Rightarrow> string \<Rightarrow> ISignature" where
  "signMessage_rw e postData secret =
     (let sb = signedBody_rw e postData;
          dg = createHmac_sha256 e secret (qs_stringify e (Obj sb))
      in \<lparr>digest = dg,
          body = Obj (object_literal (spread (Obj sb) @ [(''signature'', Str dg)]))\<rparr>)"

section \<open>Default configurations\<close>

definition defaultConfig :: jsval where
  "defaultConfig =
     Obj [(''rootUrl'', Str ''https://api.binance.com''),
          (''timeout'', Num 3000),
          (''version'', Str ''v3'')]"

definition defaultAgentConfig :: jsval where
  "defaultAgentConfig =
     Obj [(''baseURL'', js_member defaultConfig ''rootUrl''),
          (''headers'',
             Obj [(''Cache-Control'', Str ''no-cache''),
                  (''Content-Length'', Num 0),
                  (''Content-Type'', Str ''text/plain''),
                  (''User-Agent'',
                     Str ''Binance API Client (binance-cryptoexchange-api node package)'')]),
          (''method'', Str ''GET''),
          (''timeout'', js_member defaultConfig ''timeout'')]"

definition publicAgentConfig :: jsval where
  "publicAgentConfig = Obj (object_literal (spread defaultAgentConfig))"

definition privateAgentConfig :: jsval where
  "privateAgentConfig =
     Obj (object_literal (spread defaultAgentConfig @ [(''method'', Str ''POST'')]))"

definition defaultAgentConfig_rw :: jsval where
  "defaultAgentConfig_rw =
     Obj [(''baseURL'', js_member defaultConfig_rw ''rootUrl''),
          (''headers'',
             Obj [(''Cache-Control'', Str ''no-cache''),
                  (''Content-Length'', Num 0),
                  (''Content-Type'', Str ''application/x-www-form-urlencoded''),
                  (''User-Agent'',
                     Str ''Binance API Client (binance-cryptoexchange-api node package)'')]),
          (''method'', Str ''GET''),
          (''timeout'', js_member defaultConfig_rw ''timeout''),
          (''validateStatus'', Fn ''() => true'')]"

definition publicAgentConfig_rw :: jsval where
  "publicAgentConfig_rw = Obj (object_literal (spread defaultAgentConfig_rw))"

definition privateAgentConfig_rw :: jsval where
  "privateAgentConfig_rw =
     Obj (object_literal (spread defaultAgentConfig_rw @ [(''method'', Str ''POST'')]))"

section \<open>The agent\<close>

record IApiAuth =
  publicKey :: string
  privateKey :: string

text \<open>
  The agent's only state is its optional key pair (\<open>auth?: IApiAuth\<close>); \<open>None\<close> is the
  absent pair. As a JavaScript value a stored pair is the object
  \<open>{publicKey, privateKey}\<close> and an absent one is \<open>undefined\<close>.
\<close>

record IRawAgent =
  auth :: "IApiAuth option"

definition getRawAgent :: "IApiAuth option \<Rightarrow> IRawAgent" where
  "getRawAgent a = \<lparr>auth = a\<rparr>"

definition auth_value :: "IApiAuth option \<Rightarrow> jsval" where
  "auth_value a =
     (case a of
        None \<Rightarrow> Undefined
      | Some c \<Rightarrow> Obj [(''publicKey'', Str (publicKey c)), (''privateKey'', Str (privateKey c))])"

text \<open>\<open>isUpgraded(): boolean { return this.auth; }\<close>\<close>

definition isUpgraded :: "IRawAgent \<Rightarrow> jsval" where
  "isUpgraded this = auth_value (auth this)"

text \<open>\<open>upgrade(newAuth: IApiAuth): void { this.auth = newAuth; }\<close>\<close>

definition upgrade :: "IApiAuth \<Rightarrow> IRawAgent \<Rightarrow> IRawAgent" where
  "upgrade newAuth this = this\<lparr>auth := Some newAuth\<rparr>"

text \<open>
  How a request ends: the promise resolves with the transport's response, rejects with
  a value, or rejects with an exception thrown inside the asynchronous function.
\<close>

datatype outcome = Resolved jsval | Rejected jsval | Thrown error

text \<open>
  A request returns its outcome together with the descriptors it passed to the
  transport, in order: the record of a transport spy.
\<close>

type_synonym request_result = "outcome \<times> jsval list"

subsection \<open>Public requests\<close>

text \<open>\<open>{ ...defaultConfig, ...configOverride }\<close>\<close>

definition localConfig :: "jsval \<Rightarrow> jsval" where
  "localConfig configOverride =
     Obj (object_literal (spread defaultConfig @ spread configOverride))"

definition localConfig_rw :: "jsval \<Rightarrow> jsval" where
  "localConfig_rw configOverride =
     Obj (object_literal (spread defaultConfig_rw @ spread configOverride))"

definition publicAgentConfigFor :: "env \<Rightarrow> string \<Rightarrow> jsval \<Rightarrow> jsval \<Rightarrow> jsval" where
  "publicAgentConfigFor e endpoint queryParams configOverride =
     (let config = localConfig configOverride;
          uri = ''/'' @ endpoint @ ''?'' @ qs_stringify e queryParams
      in Obj (object_literal
           (spread publicAgentConfig @ [(''url'', Str uri)] @ spread config)))"

definition publicRequest :: "env \<Rightarrow> string \<Rightarrow> jsval \<Rightarrow> jsval \<Rightarrow> request_result" where
  "publicRequest e endpoint queryParams configOverride =
     (let agentConfig = publicAgentConfigFor e endpoint queryParams configOverride
      in case axios e agentConfig of
           Inr response \<Rightarrow> (Resolved response, [agentConfig])
         | Inl err \<Rightarrow> (Rejected err, [agentConfig]))"

definition publicAgentConfigFor_rw :: "env \<Rightarrow> string \<Rightarrow> jsval \<Rightarrow> jsval \<Rightarrow> jsval" where
  "publicAgentConfigFor_rw e endpoint queryParams configOverride =
     (let config = localConfig_rw configOverride;
          uri = ''/'' @ endpoint @ ''?'' @ qs_stringify e queryParams
      in Obj (object_literal
           (spread publicAgentConfig_rw @ [(''url'', Str uri)] @ spread config)))"

definition publicRequest_rw :: "env \<Rightarrow> string \<Rightarrow> jsval \<Rightarrow> jsval \<Rightarrow> request_result" where
  "publicRequest_rw e endpoint queryParams configOverride =
     (let agentConfig = publicAgentConfigFor_rw e endpoint queryParams configOverride
      in case axios e agentConfig of
           Inr response \<Rightarrow> (Resolved response, [agentConfig])
         | Inl err \<Rightarrow> (Rejected err, [agentConfig]))"

subsection \<open>Private requests\<close>

text \<open>
  The headers object of a private call:
  \<open>{ ...privateAgentConfig.headers, 'X-MBX-APIKEY': this.auth.publicKey, ...headersOverride }\<close>
  with \<open>headersOverride = config.headers || null\<close>.
\<close>

definition privateHeaders :: "jsval \<Rightarrow> IApiAuth \<Rightarrow> jsval \<Rightarrow> jsval" where
  "privateHeaders base a config =
     (let headersOverride = js_or (js_member config ''headers'') Null
      in Obj (object_literal
           (spread (js_member base ''headers'')
            @ [(''X-MBX-APIKEY'', Str (publicKey a))]
            @ spread headersOverride)))"

text \<open>
  The descriptor of a private call in the earlier variant:
  \<open>{ ...privateAgentConfig, headers, method, url: uri, data: postData, ...config }\<close>.
\<close>

definition privateAgentConfigFor ::
  "env \<Rightarrow> IApiAuth \<Rightarrow> string \<Rightarrow> string \<Rightarrow> jsval \<Rightarrow> jsval \<Rightarrow> jsval" where
  "privateAgentConfigFor e a endpoint method params configOverride =
     (let config = localConfig configOverride;
          signatureData = signMessage e params (privateKey a);
          headers = privateHeaders privateAgentConfig a config;
          data = body signatureData;
          postData = (if method = ''GET'' then Null else data);
          uri = (if method = ''GET'' then ''/'' @ endpoint @ ''?'' @ qs_stringify e data
                 else ''/'' @ endpoint)
      in Obj (object_literal
           (spread privateAgentConfig
            @ [(''headers'', headers), (''method'', Str method), (''url'', Str uri),
               (''data'', postData)]
            @ spread config)))"

text \<open>
  The descriptor in the later variant:
  \<open>{ ...privateAgentConfig, headers, method, url: uri, ...config }\<close>, the signed data
  always in the query string.
\<close>

definition privateAgentConfigFor_rw ::
  "env \<Rightarrow> IApiAuth \<Rightarrow> string \<Rightarrow> string \<Rightarrow> jsval \<Rightarrow> jsval \<Rightarrow> jsval" where
  "privateAgentConfigFor_rw e a endpoint method params configOverride =
     (let config = localConfig_rw configOverride;
          signatureData = signMessage_rw e params (privateKey a);
          headers = privateHeaders privateAgentConfig_rw a config;
          data = body signatureData;
          uri = ''/'' @ endpoint @ ''?'' @ qs_stringify e data
      in Obj (object_literal
           (spread privateAgentConfig_rw
            @ [(''headers'', headers), (''method'', Str method), (''url'', Str uri)]
            @ spread config)))"

text \<open>
  The catch block:
  \<open>err.response.data.error || err.response.data || err.response || err\<close>,
  each operand evaluated from the left, the next one only when the one before is falsy.
\<close>

definition rejectionReason :: "jsval \<Rightarrow> error + jsval" where
  "rejectionReason err =
     bind_err (bind_err (bind_err (member_access err ''response'')
                 (\<lambda>r. member_access r ''data''))
                 (\<lambda>d. member_access d ''error''))
       (\<lambda>x. if truthy x then Inr x
            else bind_err (bind_err (member_access err ''response'')
                     (\<lambda>r. member_access r ''data''))
                   (\<lambda>y. if truthy y then Inr y
                        else bind_err (member_access err ''response'')
                               (\<lambda>z. if truthy z then Inr z else Inr err)))"

definition sendPrivate :: "env \<Rightarrow> jsval \<Rightarrow> request_result" where
  "sendPrivate e agentConfig =
     (case axios e agentConfig of
        Inr response \<Rightarrow> (Resolved response, [agentConfig])
      | Inl err \<Rightarrow>
          (case rejectionReason err of
             Inr reason \<Rightarrow> (Rejected reason, [agentConfig])
           | Inl exn \<Rightarrow> (Thrown exn, [agentConfig])))"

definition privateRequest ::
  "env \<Rightarrow> IRawAgent \<Rightarrow> string \<Rightarrow> string \<Rightarrow> jsval \<Rightarrow> jsval \<Rightarrow> request_result" where
  "privateRequest e this endpoint method params configOverride =
     (if \<not> truthy (isUpgraded this)
      then (Rejected (Str ''api keys are required to access private endpoints''), [])
      else case auth this of
             None \<Rightarrow> (Thrown (TypeError ''Cannot read property privateKey of undefined''), [])
           | Some a \<Rightarrow>
               sendPrivate e (privateAgentConfigFor e a endpoint method params configOverride))"

definition privateRequest_rw ::
  "env \<Rightarrow> IRawAgent \<Rightarrow> string \<Rightarrow> string \<Rightarrow> jsval \<Rightarrow> jsval \<Rightarrow> request_result" where
  "privateRequest_rw e this endpoint method params configOverride =
     (if \<not> truthy (isUpgraded this)
      then (Rejected (Str ''api keys are required to access private endpoints''), [])
      else case auth this of
             None \<Rightarrow> (Thrown (TypeError ''Cannot read property privateKey of undefined''), [])
           | Some a \<Rightarrow>
               sendPrivate e (privateAgentConfigFor_rw e a endpoint method params configOverride))"

section \<open>A reference environment\<close>

text \<open>
  The general theorems hold for every clock value, keyed hash, serializer and
  transport; none of them assumes anything of these. To evaluate the program on concrete
  calls the environment is instantiated with: a serializer that follows the default
  behaviour of \<open>qs.stringify\<close> (own keys in enumeration order at every level,
  \<open>key=value\<close> pairs joined by \<open>&\<close>, keys and values percent-encoded except for letters,
  digits and \<open>- . _ ~\<close>, nested keys in brackets, \<open>undefined\<close> values left out, \<open>null\<close>
  as the empty string, numbers as their decimal digits, and the empty string for
  anything that is not an object); a keyed hash that writes down what was hashed under
  which key instead of computing SHA-256; and a clock stopped at 1500000000000 ms.
\<close>

definition unreserved :: "char \<Rightarrow> bool" where
  "unreserved c =
     (let n = (of_char c :: nat)
      in (48 \<le> n \<and> n \<le> 57) \<or> (65 \<le> n \<and> n \<le> 90) \<or> (97 \<le> n \<and> n \<le> 122)
         \<or> n = 45 \<or> n = 46 \<or> n = 95 \<or> n = 126)"

definition hex_char :: "nat \<Rightarrow> char" where
  "hex_char d = ''0123456789ABCDEF'' ! (d mod 16)"

definition percent_encode :: "char \<Rightarrow> string" where
  "percent_encode c =
     (if unreserved c then [c]
      else [CHR ''%'', hex_char ((of_char c :: nat) div 16), hex_char (of_char c)])"

definition uri_encode :: "string \<Rightarrow> string" where
  "uri_encode s = concat (map percent_encode s)"

definition show_int :: "int \<Rightarrow> string" where
  "show_int i = (if i < 0 then ''-'' @ show_nat (nat (- i)) else show_nat (nat i))"

fun qs_pairs :: "string \<Rightarrow> jsval \<Rightarrow> string list" where
  "qs_pairs prefix Undefined = []"
| "qs_pairs prefix Null = [uri_encode prefix @ ''='']"
| "qs_pairs prefix (Bool b) = [uri_encode prefix @ ''='' @ (if b then ''true'' else ''false'')]"
| "qs_pairs prefix (Num n) = [uri_encode prefix @ ''='' @ uri_encode (show_int n)]"
| "qs_pairs prefix (Str s) = [uri_encode prefix @ ''='' @ uri_encode s]"
| "qs_pairs prefix (Fn f) = []"
| "qs_pairs prefix (Obj es) =
     concat (map (\<lambda>(k, v). qs_pairs (prefix @ ''['' @ k @ '']'') v) es)"

fun join_amp :: "string list \<Rightarrow> string" where
  "join_amp [] = []"
| "join_amp [p] = p"
| "join_amp (p # q # ps) = p @ ''&'' @ join_amp (q # ps)"

definition pairs_of :: "(string \<times> jsval) list \<Rightarrow> string list" where
  "pairs_of es = concat (map (\<lambda>(k, x). qs_pairs k x) es)"

text \<open>
  A value with the properties of every object in it listed as they are enumerated: the
  serializer walks \<open>Object.keys\<close>, not the literal that created the object.
\<close>

fun enumerated :: "jsval \<Rightarrow> jsval" where
  "enumerated (Obj es) = Obj (object_literal (map (\<lambda>(k, v). (k, enumerated v)) es))"
| "enumerated v = v"

definition qs_default :: "jsval \<Rightarrow> string" where
  "qs_default v = (case enumerated v of Obj es \<Rightarrow> join_amp (pairs_of es) | _ \<Rightarrow> [])"

definition tagged_hmac :: "string \<Rightarrow> string \<Rightarrow> string" where
  "tagged_hmac secret msg = ''hmac-sha256('' @ secret @ '','' @ msg @ '')''"

definition example_env :: "(jsval \<Rightarrow> jsval + jsval) \<Rightarrow> env" where
  "example_env transport =
     \<lparr>Date_now = 1500000000000,
      createHmac_sha256 = tagged_hmac,
      qs_stringify = qs_default,
      axios = transport\<rparr>"

text \<open>
  Transports for the examples: one that answers, one that cannot connect (its error has
  no response), and one whose error carries a response without a payload.
\<close>

definition transport_ok :: "jsval \<Rightarrow> jsval + jsval" where
  "transport_ok d = Inr (Obj [(''status'', Num 200), (''data'', Obj [])])"

definition transport_refused :: "jsval \<Rightarrow> jsval + jsval" where
  "transport_refused d = Inl (Obj [(''code'', Str ''ECONNREFUSED'')])"

definition transport_bad_gateway :: "jsval \<Rightarrow> jsval + jsval" where
  "transport_bad_gateway d = Inl (Obj [(''response'', Obj [(''status'', Num 502)])])"

section \<open>Sessions\<close>

text \<open>
  What a user of one agent does over time: a sequence of calls, each request made in
  the environment of its moment (the clock has moved on, the transport may answer
  differently). \<open>upgrade\<close> is the only call that changes the agent.
\<close>

datatype call =
    Upgrade IApiAuth
  | PrivateRequest env string string jsval jsval
  | PublicRequest env string jsval jsval

fun is_upgrade :: "call \<Rightarrow> bool" where
  "is_upgrade (Upgrade a) = True"
| "is_upgrade c = False"

fun perform :: "IRawAgent \<Rightarrow> call \<Rightarrow> IRawAgent \<times> request_result option" where
  "perform this (Upgrade newAuth) = (upgrade newAuth this, None)"
| "perform this (PrivateRequest e endpoint verb params configOverride) =
     (this, Some (privateRequest e this endpoint verb params configOverride))"
| "perform this (PublicRequest e endpoint queryParams configOverride) =
     (this, Some (publicRequest e endpoint queryParams configOverride))"

fun session :: "IRawAgent \<Rightarrow> call list \<Rightarrow> IRawAgent \<times> request_result option list" where
  "session this [] = (this, [])"
| "session this (c # cs) =
     (case perform this c of
        (this', r) \<Rightarrow> (case session this' cs of (final, rs) \<Rightarrow> (final, r # rs)))"

text \<open>
  What a call answers when the agent holds the pair \<open>a\<close>: a private request is signed
  and sent with \<open>a\<close>.
\<close>

fun answer_with :: "IApiAuth \<Rightarrow> call \<Rightarrow> request_result option" where
  "answer_with a (Upgrade newAuth) = None"
| "answer_with a (PrivateRequest e endpoint verb params configOverride) =
     Some (sendPrivate e (privateAgentConfigFor e a endpoint verb params configOverride))"
| "answer_with a (PublicRequest e endpoint queryParams configOverride) =
     Some (publicRequest e endpoint queryParams configOverride)"

section \<open>Reading objects\<close>

text \<open>The own property \<open>k\<close> of a value, if it has one.\<close>

definition own_prop :: "jsval \<Rightarrow> string \<Rightarrow> jsval option" where
  "own_prop v k = lookup (spread v) k"


section \<open>Object literals: what a key reads\<close>

lemma set_own_keys: "set (own_keys es) = fst ` set es"
  by (auto simp: own_keys_def Let_def)

lemma distinct_own_keys: "distinct (own_keys es)"
  by (auto simp: own_keys_def Let_def)

lemma lookup_None_iff: "lookup es k = None \<longleftrightarrow> k \<notin> fst ` set es"
  by (simp add: lookup_def map_of_eq_None_iff)

lemma map_fst_object_literal: "map fst (object_literal es) = own_keys es"
  by (simp add: object_literal_def comp_def)

lemma lookup_distinct:
  assumes d: "distinct (map fst es)"
  shows "lookup es k = map_of es k"
proof -
  from d have "distinct (map fst (rev es))" by (simp add: rev_map [symmetric])
  from map_of_inject_set [OF this d] have "map_of (rev es) = map_of es" by simp
  then show ?thesis by (simp add: lookup_def)
qed

lemma lookup_object_literal: "lookup (object_literal es) k = lookup es k"
proof -
  have "lookup (object_literal es) k = map_of (object_literal es) k"
    by (rule lookup_distinct) (simp add: map_fst_object_literal distinct_own_keys)
  also have "\<dots> = lookup es k"
  proof (cases "lookup es k")
    case None
    then have "k \<notin> fst ` set es" by (simp add: lookup_None_iff)
    then show ?thesis
      using None by (simp add: object_literal_def map_of_map_restrict restrict_map_def set_own_keys)
  next
    case (Some v)
    then have "k \<in> fst ` set es" using lookup_None_iff [of es k] by simp
    then show ?thesis
      using Some by (simp add: object_literal_def map_of_map_restrict restrict_map_def set_own_keys)
  qed
  finally show ?thesis .
qed

lemma lookup_append:
  "lookup (xs @ ys) k = (case lookup ys k of Some v \<Rightarrow> Some v | None \<Rightarrow> lookup xs k)"
  by (simp add: lookup_def map_add_def split: option.splits)

lemma lookup_Cons:
  "lookup ((a, v) # xs) k = (case lookup xs k of Some w \<Rightarrow> Some w | None \<Rightarrow> if k = a then Some v else None)"
  by (simp add: lookup_def map_add_def split: option.splits)

lemma lookup_Nil: "lookup [] k = None"
  by (simp add: lookup_def)

lemma own_prop_Obj: "own_prop (Obj es) k = lookup es k"
  by (simp add: own_prop_def lookup_object_literal)

lemma js_member_own_prop:
  "js_member (Obj es) k = (case own_prop (Obj es) k of Some v \<Rightarrow> v | None \<Rightarrow> Undefined)"
  by (simp add: own_prop_Obj)

section \<open>Configurations and descriptors: what a key reads\<close>

lemma own_prop_literal: "own_prop (Obj (object_literal es)) k = lookup es k"
  by (simp add: own_prop_Obj lookup_object_literal)

lemma lookup_spread: "lookup (spread v) k = own_prop v k"
  by (simp add: own_prop_def)

lemma own_prop_not_object:
  "own_prop Undefined k = None" "own_prop Null k = None" "own_prop (Bool b) k = None"
  "own_prop (Num n) k = None" "own_prop (Fn f) k = None"
  by (simp_all add: own_prop_def lookup_Nil)

lemma own_prop_defaultConfig:
  "own_prop defaultConfig k =
     (if k = ''version'' then Some (Str ''v3'')
      else if k = ''timeout'' then Some (Num 3000)
      else if k = ''rootUrl'' then Some (Str ''https://api.binance.com'') else None)"
  by (simp add: defaultConfig_def own_prop_Obj lookup_Cons lookup_Nil)

lemma own_prop_defaultConfig_rw:
  "own_prop defaultConfig_rw k =
     (if k = ''version'' then Some (Str ''v3'')
      else if k = ''timeout'' then Some (Num 3000)
      else if k = ''rootUrl'' then Some (Str ''https://api.binance.com'')
      else if k = ''recvWindow'' then Some (Num 5000) else None)"
  by (simp add: defaultConfig_rw_def own_prop_Obj lookup_Cons lookup_Nil)

lemma own_prop_localConfig:
  "own_prop (localConfig c) k =
     (case own_prop c k of Some v \<Rightarrow> Some v | None \<Rightarrow> own_prop defaultConfig k)"
  by (simp add: localConfig_def own_prop_literal lookup_append lookup_spread split: option.splits)

lemma own_prop_localConfig_rw:
  "own_prop (localConfig_rw c) k =
     (case own_prop c k of Some v \<Rightarrow> Some v | None \<Rightarrow> own_prop defaultConfig_rw k)"
  by (simp add: localConfig_rw_def own_prop_literal lookup_append lookup_spread
      split: option.splits)

lemma js_member_localConfig:
  "js_member (localConfig c) k =
     (case own_prop (localConfig c) k of Some v \<Rightarrow> v | None \<Rightarrow> Undefined)"
  unfolding localConfig_def by (rule js_member_own_prop)

lemma js_member_localConfig_rw:
  "js_member (localConfig_rw c) k =
     (case own_prop (localConfig_rw c) k of Some v \<Rightarrow> v | None \<Rightarrow> Undefined)"
  unfolding localConfig_rw_def by (rule js_member_own_prop)

lemma own_prop_defaultAgentConfig:
  "own_prop defaultAgentConfig k =
     (if k = ''timeout'' then Some (Num 3000)
      else if k = ''method'' then Some (Str ''GET'')
      else if k = ''headers'' then Some (js_member defaultAgentConfig ''headers'')
      else if k = ''baseURL'' then Some (Str ''https://api.binance.com'') else None)"
  by (simp add: defaultAgentConfig_def defaultConfig_def own_prop_Obj lookup_Cons lookup_Nil)

lemma own_prop_defaultAgentConfig_rw:
  "own_prop defaultAgentConfig_rw k =
     (if k = ''validateStatus'' then Some (Fn ''() => true'')
      else if k = ''timeout'' then Some (Num 3000)
      else if k = ''method'' then Some (Str ''GET'')
      else if k = ''headers'' then Some (js_member defaultAgentConfig_rw ''headers'')
      else if k = ''baseURL'' then Some (Str ''https://api.binance.com'') else None)"
  by (simp add: defaultAgentConfig_rw_def defaultConfig_rw_def own_prop_Obj lookup_Cons lookup_Nil)

lemma own_prop_publicAgentConfig:
  "own_prop publicAgentConfig k = own_prop defaultAgentConfig k"
  by (simp add: publicAgentConfig_def own_prop_literal lookup_spread)

lemma own_prop_publicAgentConfig_rw:
  "own_prop publicAgentConfig_rw k = own_prop defaultAgentConfig_rw k"
  by (simp add: publicAgentConfig_rw_def own_prop_literal lookup_spread)

lemma own_prop_privateAgentConfig:
  "own_prop privateAgentConfig k =
     (if k = ''method'' then Some (Str ''POST'') else own_prop defaultAgentConfig k)"
  by (simp add: privateAgentConfig_def own_prop_literal lookup_spread lookup_append
      lookup_Cons lookup_Nil)

lemma own_prop_privateAgentConfig_rw:
  "own_prop privateAgentConfig_rw k =
     (if k = ''method'' then Some (Str ''POST'') else own_prop defaultAgentConfig_rw k)"
  by (simp add: privateAgentConfig_rw_def own_prop_literal lookup_spread lookup_append
      lookup_Cons lookup_Nil)

lemma js_member_privateAgentConfig_headers:
  "js_member privateAgentConfig ''headers'' = js_member defaultAgentConfig ''headers''"
  unfolding privateAgentConfig_def
  by (simp only: js_member_own_prop)
     (simp add: own_prop_privateAgentConfig [unfolded privateAgentConfig_def]
        own_prop_defaultAgentConfig)

lemma js_member_privateAgentConfig_rw_headers:
  "js_member privateAgentConfig_rw ''headers'' = js_member defaultAgentConfig_rw ''headers''"
  unfolding privateAgentConfig_rw_def
  by (simp only: js_member_own_prop)
     (simp add: own_prop_privateAgentConfig_rw [unfolded privateAgentConfig_rw_def]
        own_prop_defaultAgentConfig_rw)

lemma own_prop_publicAgentConfigFor:
  "own_prop (publicAgentConfigFor e endpoint q c) k =
     (case own_prop (localConfig c) k of
        Some v \<Rightarrow> Some v
      | None \<Rightarrow> if k = ''url'' then Some (Str (''/'' @ endpoint @ ''?'' @ qs_stringify e q))
                else own_prop publicAgentConfig k)"
  by (simp add: publicAgentConfigFor_def Let_def own_prop_literal lookup_append lookup_spread
      lookup_Cons lookup_Nil split: option.splits)

lemma own_prop_publicAgentConfigFor_rw:
  "own_prop (publicAgentConfigFor_rw e endpoint q c) k =
     (case own_prop (localConfig_rw c) k of
        Some v \<Rightarrow> Some v
      | None \<Rightarrow> if k = ''url'' then Some (Str (''/'' @ endpoint @ ''?'' @ qs_stringify e q))
                else own_prop publicAgentConfig_rw k)"
  by (simp add: publicAgentConfigFor_rw_def Let_def own_prop_literal lookup_append lookup_spread
      lookup_Cons lookup_Nil split: option.splits)

lemma own_prop_privateAgentConfigFor:
  "own_prop (privateAgentConfigFor e a endpoint verb params c) k =
     (case own_prop (localConfig c) k of
        Some v \<Rightarrow> Some v
      | None \<Rightarrow>
          if k = ''data'' then Some (if verb = ''GET'' then Null
                                     else body (signMessage e params (privateKey a)))
          else if k = ''url'' then Some (Str (if verb = ''GET''
                 then ''/'' @ endpoint @ ''?''
                      @ qs_stringify e (body (signMessage e params (privateKey a)))
                 else ''/'' @ endpoint))
          else if k = ''method'' then Some (Str verb)
          else if k = ''headers'' then Some (privateHeaders privateAgentConfig a (localConfig c))
          else own_prop privateAgentConfig k)"
  by (simp add: privateAgentConfigFor_def Let_def own_prop_literal lookup_append lookup_spread
      lookup_Cons lookup_Nil split: option.splits)

lemma own_prop_privateAgentConfigFor_rw:
  "own_prop (privateAgentConfigFor_rw e a endpoint verb params c) k =
     (case own_prop (localConfig_rw c) k of
        Some v \<Rightarrow> Some v
      | None \<Rightarrow>
          if k = ''url'' then Some (Str (''/'' @ endpoint @ ''?''
                      @ qs_stringify e (body (signMessage_rw e params (privateKey a)))))
          else if k = ''method'' then Some (Str verb)
          else if k = ''headers''
            then Some (privateHeaders privateAgentConfig_rw a (localConfig_rw c))
          else own_prop privateAgentConfig_rw k)"
  by (simp add: privateAgentConfigFor_rw_def Let_def own_prop_literal lookup_append
      lookup_spread lookup_Cons lookup_Nil split: option.splits)

lemma own_prop_privateHeaders:
  "own_prop (privateHeaders base a config) k =
     (case own_prop (js_or (js_member config ''headers'') Null) k of
        Some v \<Rightarrow> Some v
      | None \<Rightarrow> if k = ''X-MBX-APIKEY'' then Some (Str (publicKey a))
                else own_prop (js_member base ''headers'') k)"
  by (simp add: privateHeaders_def Let_def own_prop_literal lookup_append lookup_spread
      lookup_Cons lookup_Nil split: option.splits)

lemma headers_of_localConfig:
  "js_member (localConfig c) ''headers''
     = (case own_prop c ''headers'' of Some h \<Rightarrow> h | None \<Rightarrow> Undefined)"
  by (simp add: js_member_localConfig own_prop_localConfig own_prop_defaultConfig
      split: option.splits)

lemma headers_of_localConfig_rw:
  "js_member (localConfig_rw c) ''headers''
     = (case own_prop c ''headers'' of Some h \<Rightarrow> h | None \<Rightarrow> Undefined)"
  by (simp add: js_member_localConfig_rw own_prop_localConfig_rw own_prop_defaultConfig_rw
      split: option.splits)

section \<open>Requests with credentials, and what reaches the transport\<close>

lemma truthy_isUpgraded: "truthy (isUpgraded this) \<longleftrightarrow> auth this \<noteq> None"
  by (cases "auth this") (simp_all add: isUpgraded_def auth_value_def)

lemma privateRequest_with_credentials:
  "auth this = Some a \<Longrightarrow>
     privateRequest e this endpoint verb params c
       = sendPrivate e (privateAgentConfigFor e a endpoint verb params c)"
  by (simp add: privateRequest_def truthy_isUpgraded)

lemma privateRequest_rw_with_credentials:
  "auth this = Some a \<Longrightarrow>
     privateRequest_rw e this endpoint verb params c
       = sendPrivate e (privateAgentConfigFor_rw e a endpoint verb params c)"
  by (simp add: privateRequest_rw_def truthy_isUpgraded)

lemma snd_sendPrivate: "snd (sendPrivate e d) = [d]"
  by (simp add: sendPrivate_def split: sum.splits)

lemma snd_publicRequest:
  "snd (publicRequest e endpoint q c) = [publicAgentConfigFor e endpoint q c]"
  by (simp add: publicRequest_def Let_def split: sum.splits)

lemma snd_publicRequest_rw:
  "snd (publicRequest_rw e endpoint q c) = [publicAgentConfigFor_rw e endpoint q c]"
  by (simp add: publicRequest_rw_def Let_def split: sum.splits)

lemma descriptor_headers:
  "own_prop (privateAgentConfigFor e a endpoint verb params c) ''headers'' =
     (case own_prop c ''headers'' of
        Some h \<Rightarrow> Some h
      | None \<Rightarrow> Some (privateHeaders privateAgentConfig a (localConfig c)))"
  by (simp add: own_prop_privateAgentConfigFor own_prop_localConfig own_prop_defaultConfig
      split: option.splits)

lemma descriptor_headers_rw:
  "own_prop (privateAgentConfigFor_rw e a endpoint verb params c) ''headers'' =
     (case own_prop c ''headers'' of
        Some h \<Rightarrow> Some h
      | None \<Rightarrow> Some (privateHeaders privateAgentConfig_rw a (localConfig_rw c)))"
  by (simp add: own_prop_privateAgentConfigFor_rw own_prop_localConfig_rw
      own_prop_defaultConfig_rw split: option.splits)

lemma merged_headers_without_override:
  assumes "own_prop c ''headers'' = None"
  shows "own_prop (privateHeaders privateAgentConfig a (localConfig c)) k =
           (if k = ''X-MBX-APIKEY'' then Some (Str (publicKey a))
            else own_prop (js_member privateAgentConfig ''headers'') k)"
    and "own_prop (privateHeaders privateAgentConfig_rw a (localConfig_rw c)) k =
           (if k = ''X-MBX-APIKEY'' then Some (Str (publicKey a))
            else own_prop (js_member privateAgentConfig_rw ''headers'') k)"
  using assms
  by (simp_all add: own_prop_privateHeaders headers_of_localConfig headers_of_localConfig_rw
      js_or_def own_prop_not_object)

section \<open>Evaluating the reference environment\<close>

lemma qs_default_absent:
  "qs_default Undefined = []" "qs_default Null = []" "qs_default (Obj []) = []"
  by (simp_all add: qs_default_def pairs_of_def object_literal_def own_keys_def)

lemmas eval_literal = object_literal_def own_keys_def lookup_def array_index_def digit_of_def
  index_rank_def

lemmas eval_qs = qs_default_def pairs_of_def uri_encode_def percent_encode_def unreserved_def
  hex_char_def show_int_def show_nat.simps eval_literal

lemmas eval_sign = signMessage_def signMessage_rw_def signedBody_def signedBody_rw_def
  defaultConfig_rw_def tagged_hmac_def example_env_def Let_def

lemmas eval_descriptor = privateAgentConfigFor_def privateAgentConfigFor_rw_def
  privateHeaders_def js_or_def localConfig_def localConfig_rw_def privateAgentConfig_def
  privateAgentConfig_rw_def defaultAgentConfig_def defaultAgentConfig_rw_def defaultConfig_def

section \<open>The signer: the fields of the signed body\<close>

lemma own_prop_signedBody:
  "lookup (signedBody e B) k =
     (if k = ''timestamp'' then Some (Num (Date_now e)) else own_prop B k)"
  by (simp add: signedBody_def lookup_object_literal lookup_append lookup_Cons lookup_Nil
      own_prop_def)

lemma own_prop_signedBody_rw:
  "lookup (signedBody_rw e B) k =
     (if k = ''recvWindow'' then Some (Num 5000)
      else if k = ''timestamp'' then Some (Num (Date_now e)) else own_prop B k)"
  by (simp add: signedBody_rw_def defaultConfig_rw_def lookup_object_literal lookup_append
      lookup_Cons lookup_Nil own_prop_def)

lemma digest_signMessage:
  "digest (signMessage e B S) = createHmac_sha256 e S (qs_stringify e (Obj (signedBody e B)))"
  by (simp add: signMessage_def Let_def)


lemma own_prop_body_signMessage:
  "own_prop (body (signMessage e B S)) k =
     (if k = ''signature'' then Some (Str (digest (signMessage e B S)))
      else if k = ''timestamp'' then Some (Num (Date_now e))
      else own_prop B k)"
  by (simp add: signMessage_def Let_def own_prop_Obj lookup_object_literal lookup_append
      lookup_Cons lookup_Nil own_prop_signedBody)

lemma own_prop_body_signMessage_rw:
  "own_prop (body (signMessage_rw e B S)) k =
     (if k = ''signature'' then Some (Str (digest (signMessage_rw e B S)))
      else if k = ''recvWindow'' then Some (Num 5000)
      else if k = ''timestamp'' then Some (Num (Date_now e))
      else own_prop B k)"
  by (simp add: signMessage_rw_def Let_def own_prop_Obj lookup_object_literal lookup_append
      lookup_Cons lookup_Nil own_prop_signedBody_rw)

text \<open>
  C1, as stated, fails for a body that has a key named like an injected field: the
  key stays, but its value does not. The caller's \<open>timestamp: 1\<close> comes back as the
  clock value.
\<close>

theorem signMessage_overwrites_injected_keys:
  "own_prop (Obj [(''symbol'', Str ''BTCUSDT''), (''timestamp'', Num 1)]) ''timestamp''
     = Some (Num 1)
   \<and> body (signMessage (example_env transport_ok)
         (Obj [(''symbol'', Str ''BTCUSDT''), (''timestamp'', Num 1)]) ''sk'')
     = Obj [(''symbol'', Str ''BTCUSDT''),
            (''timestamp'', Num 1500000000000),
            (''signature'', Str ''hmac-sha256(sk,symbol=BTCUSDT&timestamp=1500000000000)'')]
   \<and> own_prop (body (signMessage (example_env transport_ok)
         (Obj [(''symbol'', Str ''BTCUSDT''), (''timestamp'', Num 1)]) ''sk'')) ''timestamp''
     = Some (Num 1500000000000)"
  by (simp add: own_prop_Obj lookup_Cons lookup_Nil eval_sign eval_literal eval_qs)

text \<open>
  C1, amended. For every body \<open>B\<close> and secret \<open>S\<close>, the body that \<open>signMessage\<close> returns
  has every key of \<open>B\<close>; every key other than \<open>timestamp\<close>, \<open>recvWindow\<close> (later variant)
  and \<open>signature\<close> reads exactly what it reads in \<open>B\<close>, and no further key appears;
  \<open>timestamp\<close> holds the clock value, \<open>recvWindow\<close> (later variant) holds 5000, and
  \<open>signature\<close> holds the returned digest, whatever \<open>B\<close> held under these names.
\<close>

theorem signMessage_body_fields:
  "(\<forall>k. own_prop B k \<noteq> None \<longrightarrow> own_prop (body (signMessage e B S)) k \<noteq> None)
   \<and> (\<forall>k. k \<noteq> ''timestamp'' \<and> k \<noteq> ''signature''
          \<longrightarrow> own_prop (body (signMessage e B S)) k = own_prop B k)
   \<and> own_prop (body (signMessage e B S)) ''timestamp'' = Some (Num (Date_now e))
   \<and> own_prop (body (signMessage e B S)) ''signature'' = Some (Str (digest (signMessage e B S)))
   \<and> (\<forall>k. own_prop B k \<noteq> None \<longrightarrow> own_prop (body (signMessage_rw e B S)) k \<noteq> None)
   \<and> (\<forall>k. k \<noteq> ''timestamp'' \<and> k \<noteq> ''recvWindow'' \<and> k \<noteq> ''signature''
          \<longrightarrow> own_prop (body (signMessage_rw e B S)) k = own_prop B k)
   \<and> own_prop (body (signMessage_rw e B S)) ''timestamp'' = Some (Num (Date_now e))
   \<and> own_prop (body (signMessage_rw e B S)) ''recvWindow'' = Some (Num 5000)
   \<and> own_prop (body (signMessage_rw e B S)) ''signature''
       = Some (Str (digest (signMessage_rw e B S)))"
proof -
  have present: "own_prop (body (signMessage e B S)) k \<noteq> None"
    and present_rw: "own_prop (body (signMessage_rw e B S)) k \<noteq> None"
    if "own_prop B k \<noteq> None" for k
    using that by (simp_all add: own_prop_body_signMessage own_prop_body_signMessage_rw)
  have kept: "own_prop (body (signMessage e B S)) k = own_prop B k"
    if "k \<noteq> ''timestamp'' \<and> k \<noteq> ''signature''" for k
    using that by (simp add: own_prop_body_signMessage)
  have kept_rw: "own_prop (body (signMessage_rw e B S)) k = own_prop B k"
    if "k \<noteq> ''timestamp'' \<and> k \<noteq> ''recvWindow'' \<and> k \<noteq> ''signature''" for k
    using that by (simp add: own_prop_body_signMessage_rw)
  have injected:
    "own_prop (body (signMessage e B S)) ''timestamp'' = Some (Num (Date_now e))"
    "own_prop (body (signMessage e B S)) ''signature'' = Some (Str (digest (signMessage e B S)))"
    "own_prop (body (signMessage_rw e B S)) ''timestamp'' = Some (Num (Date_now e))"
    "own_prop (body (signMessage_rw e B S)) ''recvWindow'' = Some (Num 5000)"
    "own_prop (body (signMessage_rw e B S)) ''signature''
       = Some (Str (digest (signMessage_rw e B S)))"
    by (simp_all add: own_prop_body_signMessage own_prop_body_signMessage_rw)
  from present present_rw kept kept_rw injected show ?thesis
    by (intro conjI allI impI) assumption+
qed

theorem signMessage_body_fields_witness:
  "own_prop (Obj [(''symbol'', Str ''BTCUSDT'')]) ''symbol'' \<noteq> None
   \<and> own_prop (body (signMessage (example_env transport_ok)
          (Obj [(''symbol'', Str ''BTCUSDT'')]) ''sk'')) ''symbol'' = Some (Str ''BTCUSDT'')
   \<and> own_prop (body (signMessage_rw (example_env transport_ok)
          (Obj [(''symbol'', Str ''BTCUSDT'')]) ''sk'')) ''symbol'' = Some (Str ''BTCUSDT'')
   \<and> own_prop (body (signMessage (example_env transport_ok)
          (Obj [(''symbol'', Str ''BTCUSDT'')]) ''sk'')) ''timestamp''
        = Some (Num 1500000000000)"
proof -
  note t = signMessage_body_fields
    [of "Obj [(''symbol'', Str ''BTCUSDT'')]" "example_env transport_ok" "''sk''"]
  have p: "own_prop (Obj [(''symbol'', Str ''BTCUSDT'')]) ''symbol'' = Some (Str ''BTCUSDT'')"
    by (simp add: own_prop_Obj lookup_Cons lookup_Nil)
  have q: "''symbol'' \<noteq> ''timestamp'' \<and> ''symbol'' \<noteq> ''recvWindow''
           \<and> ''symbol'' \<noteq> ''signature''"
    by simp
  have n: "Date_now (example_env transport_ok) = 1500000000000"
    by (simp add: example_env_def)
  from t p q n show ?thesis by simp
qed

section \<open>Requests without credentials\<close>

text \<open>
  C2. On an agent with no stored key pair, \<open>privateRequest\<close> rejects with the
  authentication-required message and passes nothing to the transport, for every
  endpoint, verb, body and configuration override, in both variants.
\<close>

theorem privateRequest_without_credentials:
  "auth this = None \<Longrightarrow>
     privateRequest e this endpoint verb params configOverride
       = (Rejected (Str ''api keys are required to access private endpoints''), [])
     \<and> privateRequest_rw e this endpoint verb params configOverride
       = (Rejected (Str ''api keys are required to access private endpoints''), [])"
  by (simp add: privateRequest_def privateRequest_rw_def isUpgraded_def auth_value_def)

theorem privateRequest_without_credentials_witness:
  "auth (getRawAgent None) = None
   \<and> privateRequest (example_env transport_ok) (getRawAgent None)
        ''api/v3/account'' ''GET'' Null Null
       = (Rejected (Str ''api keys are required to access private endpoints''), [])
   \<and> privateRequest_rw (example_env transport_ok) (getRawAgent None)
        ''api/v3/order'' ''POST'' (Obj [(''symbol'', Str ''BTCUSDT'')]) Null
       = (Rejected (Str ''api keys are required to access private endpoints''), [])"
proof -
  have a: "auth (getRawAgent None) = None"
    by (simp add: getRawAgent_def)
  from a privateRequest_without_credentials [OF a] show ?thesis by simp
qed

section \<open>Public requests\<close>

text \<open>
  C9. For every endpoint and query parameters, \<open>publicRequest\<close> (called without an
  override of \<open>method\<close>, \<open>url\<close> or \<open>data\<close>, which is every call with no override at all)
  passes the transport one descriptor whose method is GET, which has no \<open>data\<close>, and
  whose URL is \<open>/\<close>, the endpoint, \<open>?\<close> and the serialization of the query parameters.
  The serializer is called and the \<open>?\<close> appended whatever the query parameters are, so
  where the serialization is empty (as \<open>qs.stringify\<close> gives for an absent or empty
  object) the URL ends in \<open>?\<close>. Both variants.
\<close>

theorem publicRequest_descriptor:
  assumes "own_prop c ''method'' = None" and "own_prop c ''url'' = None"
    and "own_prop c ''data'' = None"
  shows
    "snd (publicRequest e endpoint q c) = [publicAgentConfigFor e endpoint q c]
     \<and> own_prop (publicAgentConfigFor e endpoint q c) ''method'' = Some (Str ''GET'')
     \<and> own_prop (publicAgentConfigFor e endpoint q c) ''data'' = None
     \<and> own_prop (publicAgentConfigFor e endpoint q c) ''url''
         = Some (Str (''/'' @ endpoint @ ''?'' @ qs_stringify e q))
     \<and> (qs_stringify e q = [] \<longrightarrow>
          own_prop (publicAgentConfigFor e endpoint q c) ''url''
            = Some (Str (''/'' @ endpoint @ ''?'')))
     \<and> snd (publicRequest_rw e endpoint q c) = [publicAgentConfigFor_rw e endpoint q c]
     \<and> own_prop (publicAgentConfigFor_rw e endpoint q c) ''method'' = Some (Str ''GET'')
     \<and> own_prop (publicAgentConfigFor_rw e endpoint q c) ''data'' = None
     \<and> own_prop (publicAgentConfigFor_rw e endpoint q c) ''url''
         = Some (Str (''/'' @ endpoint @ ''?'' @ qs_stringify e q))
     \<and> (qs_stringify e q = [] \<longrightarrow>
          own_prop (publicAgentConfigFor_rw e endpoint q c) ''url''
            = Some (Str (''/'' @ endpoint @ ''?'')))"
  using assms
  by (simp add: snd_publicRequest snd_publicRequest_rw own_prop_publicAgentConfigFor
      own_prop_publicAgentConfigFor_rw own_prop_localConfig own_prop_localConfig_rw
      own_prop_defaultConfig own_prop_defaultConfig_rw own_prop_publicAgentConfig
      own_prop_publicAgentConfig_rw own_prop_defaultAgentConfig own_prop_defaultAgentConfig_rw)

theorem publicRequest_descriptor_witness:
  "own_prop Null ''method'' = None \<and> own_prop Null ''url'' = None
   \<and> own_prop Null ''data'' = None
   \<and> qs_stringify (example_env transport_ok) Null = []
   \<and> own_prop (publicAgentConfigFor (example_env transport_ok) ''api/v1/ping'' Null Null)
        ''url'' = Some (Str ''/api/v1/ping?'')
   \<and> own_prop (publicAgentConfigFor (example_env transport_ok) ''ticker''
          (Obj [(''symbol'', Str ''BTCUSDT'')]) Null) ''url''
        = Some (Str ''/ticker?symbol=BTCUSDT'')
   \<and> own_prop (publicAgentConfigFor_rw (example_env transport_ok) ''ticker''
          (Obj [(''symbol'', Str ''BTCUSDT'')]) Null) ''method''
        = Some (Str ''GET'')"
proof -
  have h: "own_prop Null ''method'' = None" "own_prop Null ''url'' = None"
    "own_prop Null ''data'' = None"
    by (simp_all add: own_prop_not_object)
  have s: "qs_stringify (example_env transport_ok) Null = []"
    "qs_stringify (example_env transport_ok) (Obj [(''symbol'', Str ''BTCUSDT'')])
       = ''symbol=BTCUSDT''"
    by (simp_all add: example_env_def eval_qs)
  from publicRequest_descriptor [OF h, of "example_env transport_ok" "''api/v1/ping''" Null]
    publicRequest_descriptor [OF h, of "example_env transport_ok" "''ticker''"
      "Obj [(''symbol'', Str ''BTCUSDT'')]"]
    h s
  show ?thesis by simp
qed

section \<open>Where the signed data is placed\<close>

text \<open>
  C6, as stated, fails on the later variant: a POST sends no \<open>data\<close>, the signed body is
  serialized into the query string of the URL.
\<close>

theorem later_variant_post_in_query_string:
  "snd (privateRequest_rw (example_env transport_ok)
          (getRawAgent (Some \<lparr>publicKey = ''pk'', privateKey = ''sk''\<rparr>))
          ''api/v3/order'' ''POST'' (Obj [(''symbol'', Str ''BTCUSDT'')]) Null)
   = [Obj [(''baseURL'', Str ''https://api.binance.com''),
           (''headers'',
            Obj [(''Cache-Control'', Str ''no-cache''),
                 (''Content-Length'', Num 0),
                 (''Content-Type'', Str ''application/x-www-form-urlencoded''),
                 (''User-Agent'',
                  Str ''Binance API Client (binance-cryptoexchange-api node package)''),
                 (''X-MBX-APIKEY'', Str ''pk'')]),
           (''method'', Str ''POST''), (''timeout'', Num 3000),
           (''validateStatus'', Fn ''() => true''),
           (''url'',
            Str ''/api/v3/order?symbol=BTCUSDT&timestamp=1500000000000&recvWindow=5000&signature=hmac-sha256%28sk%2Csymbol%3DBTCUSDT%26timestamp%3D1500000000000%26recvWindow%3D5000%29''),
           (''recvWindow'', Num 5000),
           (''rootUrl'', Str ''https://api.binance.com''),
           (''version'', Str ''v3'')]]"
  by (simp add: privateRequest_rw_with_credentials getRawAgent_def snd_sendPrivate
      eval_descriptor eval_sign eval_literal eval_qs)

text \<open>
  C6, amended. When the override replaces neither \<open>url\<close> nor \<open>data\<close>: in the earlier
  variant a GET carries the signed body in the query string and \<open>data\<close> is \<open>null\<close>, and
  every other verb carries the signed body as \<open>data\<close> with a bare URL; in the later
  variant the signed body is in the query string for every verb and the descriptor has
  no \<open>data\<close>.
\<close>

theorem private_data_placement:
  assumes "auth this = Some a" and "own_prop c ''url'' = None" and "own_prop c ''data'' = None"
  shows
    "snd (privateRequest e this endpoint verb params c)
       = [privateAgentConfigFor e a endpoint verb params c]
     \<and> (verb = ''GET'' \<longrightarrow>
          own_prop (privateAgentConfigFor e a endpoint verb params c) ''url''
            = Some (Str (''/'' @ endpoint @ ''?''
                @ qs_stringify e (body (signMessage e params (privateKey a)))))
          \<and> own_prop (privateAgentConfigFor e a endpoint verb params c) ''data'' = Some Null)
     \<and> (verb \<noteq> ''GET'' \<longrightarrow>
          own_prop (privateAgentConfigFor e a endpoint verb params c) ''url''
            = Some (Str (''/'' @ endpoint))
          \<and> own_prop (privateAgentConfigFor e a endpoint verb params c) ''data''
            = Some (body (signMessage e params (privateKey a))))
     \<and> snd (privateRequest_rw e this endpoint verb params c)
       = [privateAgentConfigFor_rw e a endpoint verb params c]
     \<and> own_prop (privateAgentConfigFor_rw e a endpoint verb params c) ''url''
         = Some (Str (''/'' @ endpoint @ ''?''
             @ qs_stringify e (body (signMessage_rw e params (privateKey a)))))
     \<and> own_prop (privateAgentConfigFor_rw e a endpoint verb params c) ''data'' = None"
  using assms
  by (simp add: privateRequest_with_credentials privateRequest_rw_with_credentials
      snd_sendPrivate own_prop_privateAgentConfigFor own_prop_privateAgentConfigFor_rw
      own_prop_localConfig own_prop_localConfig_rw own_prop_defaultConfig
      own_prop_defaultConfig_rw own_prop_privateAgentConfig_rw own_prop_defaultAgentConfig_rw)

theorem private_data_placement_witness:
  "auth (getRawAgent (Some \<lparr>publicKey = ''pk'', privateKey = ''sk''\<rparr>))
     = Some \<lparr>publicKey = ''pk'', privateKey = ''sk''\<rparr>
   \<and> own_prop Null ''url'' = None \<and> own_prop Null ''data'' = None
   \<and> own_prop (privateAgentConfigFor (example_env transport_ok)
         \<lparr>publicKey = ''pk'', privateKey = ''sk''\<rparr> ''api/v3/openOrders'' ''GET''
         (Obj [(''symbol'', Str ''BTCUSDT'')]) Null) ''data'' = Some Null
   \<and> own_prop (privateAgentConfigFor (example_env transport_ok)
         \<lparr>publicKey = ''pk'', privateKey = ''sk''\<rparr> ''api/v3/order'' ''DELETE''
         (Obj [(''symbol'', Str ''BTCUSDT'')]) Null) ''url'' = Some (Str ''/api/v3/order'')
   \<and> own_prop (privateAgentConfigFor_rw (example_env transport_ok)
         \<lparr>publicKey = ''pk'', privateKey = ''sk''\<rparr> ''api/v3/order'' ''DELETE''
         (Obj [(''symbol'', Str ''BTCUSDT'')]) Null) ''data'' = None"
proof -
  have a: "auth (getRawAgent (Some \<lparr>publicKey = ''pk'', privateKey = ''sk''\<rparr>))
     = Some \<lparr>publicKey = ''pk'', privateKey = ''sk''\<rparr>"
    by (simp add: getRawAgent_def)
  have h: "own_prop Null ''url'' = None" "own_prop Null ''data'' = None"
    by (simp_all add: own_prop_not_object)
  have v: "''GET'' = ''GET''" "''DELETE'' \<noteq> ''GET''"
    by simp_all
  from private_data_placement [OF a h, of "example_env transport_ok" "''api/v3/openOrders''"
      "''GET''" "Obj [(''symbol'', Str ''BTCUSDT'')]"]
    private_data_placement [OF a h, of "example_env transport_ok" "''api/v3/order''"
      "''DELETE''" "Obj [(''symbol'', Str ''BTCUSDT'')]"]
    a h v
  show ?thesis by simp
qed

section \<open>Transport failures\<close>

lemma rejectionReason_error_field:
  assumes "js_member err ''response'' = Obj r" and "js_member (Obj r) ''data'' = Obj d"
    and "truthy (js_member (Obj d) ''error'')" and "err \<noteq> Undefined" and "err \<noteq> Null"
  shows "rejectionReason err = Inr (js_member (Obj d) ''error'')"
  using assms by (cases err) (simp_all add: rejectionReason_def bind_err_def)

lemma rejectionReason_payload:
  assumes "js_member err ''response'' = Obj r" and "js_member (Obj r) ''data'' = Obj d"
    and "\<not> truthy (js_member (Obj d) ''error'')" and "err \<noteq> Undefined" and "err \<noteq> Null"
  shows "rejectionReason err = Inr (Obj d)"
  using assms by (cases err) (simp_all add: rejectionReason_def bind_err_def)

lemma rejectionReason_no_response:
  assumes "js_member err ''response'' = Undefined" and "err \<noteq> Undefined" and "err \<noteq> Null"
  shows "rejectionReason err = Inl (TypeError ''Cannot read property data of undefined'')"
  using assms by (cases err) (simp_all add: rejectionReason_def bind_err_def)

lemma rejectionReason_no_payload:
  assumes "js_member err ''response'' = Obj r" and "js_member (Obj r) ''data'' = Undefined"
    and "err \<noteq> Undefined" and "err \<noteq> Null"
  shows "rejectionReason err = Inl (TypeError ''Cannot read property error of undefined'')"
  using assms by (cases err) (simp_all add: rejectionReason_def bind_err_def)

text \<open>
  C3. The code does not do what the claim says for an error without a response. A
  transport that cannot connect rejects with an error that has no \<open>response\<close>; reading
  \<open>err.response.data\<close> then throws inside the catch block, and the request rejects with
  that TypeError instead of the transport's error, in both variants. The same happens,
  one step later, for a response that has no \<open>data\<close>.
\<close>

theorem bare_transport_error_is_replaced_by_TypeError:
  "privateRequest (example_env transport_refused)
       (getRawAgent (Some \<lparr>publicKey = ''pk'', privateKey = ''sk''\<rparr>))
       ''api/v3/account'' ''GET'' Null Null
     = (Thrown (TypeError ''Cannot read property data of undefined''),
        [privateAgentConfigFor (example_env transport_refused)
           \<lparr>publicKey = ''pk'', privateKey = ''sk''\<rparr> ''api/v3/account'' ''GET'' Null Null])
   \<and> privateRequest_rw (example_env transport_refused)
       (getRawAgent (Some \<lparr>publicKey = ''pk'', privateKey = ''sk''\<rparr>))
       ''api/v3/account'' ''GET'' Null Null
     = (Thrown (TypeError ''Cannot read property data of undefined''),
        [privateAgentConfigFor_rw (example_env transport_refused)
           \<lparr>publicKey = ''pk'', privateKey = ''sk''\<rparr> ''api/v3/account'' ''GET'' Null Null])
   \<and> fst (privateRequest (example_env transport_refused)
       (getRawAgent (Some \<lparr>publicKey = ''pk'', privateKey = ''sk''\<rparr>))
       ''api/v3/account'' ''GET'' Null Null)
     \<noteq> Rejected (Obj [(''code'', Str ''ECONNREFUSED'')])
   \<and> fst (privateRequest (example_env transport_bad_gateway)
       (getRawAgent (Some \<lparr>publicKey = ''pk'', privateKey = ''sk''\<rparr>))
       ''api/v3/account'' ''GET'' Null Null)
     = Thrown (TypeError ''Cannot read property error of undefined'')"
  by (simp add: privateRequest_with_credentials privateRequest_rw_with_credentials
      getRawAgent_def sendPrivate_def example_env_def transport_refused_def
      transport_bad_gateway_def rejectionReason_def bind_err_def lookup_Cons lookup_Nil)

section \<open>Header overrides\<close>

text \<open>
  C4. The code does not do what the claim says for an override that carries headers.
  The merged headers are computed (default headers, the API key and \<open>X-Test\<close>), but the
  descriptor is built with \<open>...config\<close> last, and \<open>config\<close> still holds the override's
  own \<open>headers\<close>: the descriptor that reaches the transport has \<open>X-Test\<close> alone, with
  neither the default headers nor \<open>X-MBX-APIKEY\<close>.
\<close>

theorem override_headers_replace_merged_headers:
  "snd (privateRequest (example_env transport_ok)
          (getRawAgent (Some \<lparr>publicKey = ''pk'', privateKey = ''sk''\<rparr>))
          ''api/v3/order'' ''POST'' (Obj [(''symbol'', Str ''BTCUSDT'')])
          (Obj [(''headers'', Obj [(''X-Test'', Str ''1'')])]))
   = [Obj [(''baseURL'', Str ''https://api.binance.com''),
           (''headers'', Obj [(''X-Test'', Str ''1'')]),
           (''method'', Str ''POST''), (''timeout'', Num 3000),
           (''url'', Str ''/api/v3/order''),
           (''data'',
            Obj [(''symbol'', Str ''BTCUSDT''),
                 (''timestamp'', Num 1500000000000),
                 (''signature'',
                  Str ''hmac-sha256(sk,symbol=BTCUSDT&timestamp=1500000000000)'')]),
           (''rootUrl'', Str ''https://api.binance.com''),
           (''version'', Str ''v3'')]]
   \<and> privateHeaders privateAgentConfig \<lparr>publicKey = ''pk'', privateKey = ''sk''\<rparr>
         (localConfig (Obj [(''headers'', Obj [(''X-Test'', Str ''1'')])]))
     = Obj [(''Cache-Control'', Str ''no-cache''),
            (''Content-Length'', Num 0),
            (''Content-Type'', Str ''text/plain''),
            (''User-Agent'',
             Str ''Binance API Client (binance-cryptoexchange-api node package)''),
            (''X-MBX-APIKEY'', Str ''pk''),
            (''X-Test'', Str ''1'')]
   \<and> own_prop (privateAgentConfigFor_rw (example_env transport_ok)
          \<lparr>publicKey = ''pk'', privateKey = ''sk''\<rparr>
          ''api/v3/order'' ''POST'' (Obj [(''symbol'', Str ''BTCUSDT'')])
          (Obj [(''headers'', Obj [(''X-Test'', Str ''1'')])])) ''headers''
     = Some (Obj [(''X-Test'', Str ''1'')])"
  by (simp add: privateRequest_with_credentials getRawAgent_def snd_sendPrivate
      descriptor_headers_rw own_prop_Obj lookup_Cons lookup_Nil
      eval_descriptor eval_sign eval_literal eval_qs)

text \<open>
  The part of C4 that the code keeps: an override that carries no headers (one that
  only changes the verb, say) leaves the merged headers in the descriptor, the API key
  among them.
\<close>

lemma api_key_header_without_header_override:
  assumes "own_prop c ''headers'' = None"
  shows "own_prop (privateAgentConfigFor e a endpoint verb params c) ''headers''
           = Some (privateHeaders privateAgentConfig a (localConfig c))"
    and "own_prop (privateHeaders privateAgentConfig a (localConfig c)) ''X-MBX-APIKEY''
           = Some (Str (publicKey a))"
    and "own_prop (privateAgentConfigFor_rw e a endpoint verb params c) ''headers''
           = Some (privateHeaders privateAgentConfig_rw a (localConfig_rw c))"
    and "own_prop (privateHeaders privateAgentConfig_rw a (localConfig_rw c)) ''X-MBX-APIKEY''
           = Some (Str (publicKey a))"
  using assms
  by (simp_all add: descriptor_headers descriptor_headers_rw merged_headers_without_override)

section \<open>The upgrade check\<close>

text \<open>
  C7. \<open>isUpgraded\<close> does not return a boolean: it returns \<open>this.auth\<close> itself, the stored
  key pair (private key included) or \<open>undefined\<close>. Only the truthiness of what it returns
  is what the claim describes.
\<close>

theorem isUpgraded_returns_the_stored_pair:
  "isUpgraded (getRawAgent (Some \<lparr>publicKey = ''pk'', privateKey = ''sk''\<rparr>))
     = Obj [(''publicKey'', Str ''pk''), (''privateKey'', Str ''sk'')]
   \<and> isUpgraded (getRawAgent (Some \<lparr>publicKey = ''pk'', privateKey = ''sk''\<rparr>)) \<noteq> Bool True
   \<and> isUpgraded (getRawAgent None) = Undefined
   \<and> isUpgraded (getRawAgent None) \<noteq> Bool False"
  by (simp add: isUpgraded_def getRawAgent_def auth_value_def)

lemma isUpgraded_never_boolean: "isUpgraded this \<noteq> Bool b"
  by (cases "auth this") (simp_all add: isUpgraded_def auth_value_def)

section \<open>Upgrading the agent\<close>

lemma perform_keeps_agent: "\<not> is_upgrade c \<Longrightarrow> fst (perform this c) = this"
  by (cases c) simp_all

lemma perform_answer:
  "\<not> is_upgrade c \<Longrightarrow> auth this = Some a \<Longrightarrow> snd (perform this c) = answer_with a c"
  by (cases c) (simp_all add: privateRequest_with_credentials)

lemma session_without_upgrade:
  assumes "\<forall>c \<in> set cs. \<not> is_upgrade c" and "auth this = Some a"
  shows "session this cs = (this, map (answer_with a) cs)"
  using assms
proof (induction cs)
  case Nil
  then show ?case by simp
next
  case (Cons c cs)
  then have c: "\<not> is_upgrade c" and rest: "session this cs = (this, map (answer_with a) cs)"
    by simp_all
  from c Cons.prems(2) have "perform this c = (this, answer_with a c)"
    using perform_keeps_agent [of c this] perform_answer [of c this a]
    by (cases "perform this c") simp
  with rest show ?case by simp
qed

text \<open>
  C5, as stated, fails for a call whose override brings its own \<open>X-MBX-APIKEY\<close>: the
  override's headers are spread after the key, so the header is the caller's value and
  not the new public key, in the merged headers as in the descriptor sent.
\<close>

theorem override_can_replace_the_api_key_header:
  "own_prop (privateHeaders privateAgentConfig \<lparr>publicKey = ''pk2'', privateKey = ''sk2''\<rparr>
       (localConfig (Obj [(''headers'', Obj [(''X-MBX-APIKEY'', Str ''other'')])])))
     ''X-MBX-APIKEY'' = Some (Str ''other'')
   \<and> snd (privateRequest (example_env transport_ok)
          (upgrade \<lparr>publicKey = ''pk2'', privateKey = ''sk2''\<rparr>
             (getRawAgent (Some \<lparr>publicKey = ''pk'', privateKey = ''sk''\<rparr>)))
          ''api/v3/account'' ''GET'' Null
          (Obj [(''headers'', Obj [(''X-MBX-APIKEY'', Str ''other'')])]))
     = [privateAgentConfigFor (example_env transport_ok)
          \<lparr>publicKey = ''pk2'', privateKey = ''sk2''\<rparr> ''api/v3/account'' ''GET'' Null
          (Obj [(''headers'', Obj [(''X-MBX-APIKEY'', Str ''other'')])])]
   \<and> own_prop (privateAgentConfigFor (example_env transport_ok)
          \<lparr>publicKey = ''pk2'', privateKey = ''sk2''\<rparr> ''api/v3/account'' ''GET'' Null
          (Obj [(''headers'', Obj [(''X-MBX-APIKEY'', Str ''other'')])])) ''headers''
     = Some (Obj [(''X-MBX-APIKEY'', Str ''other'')])"
  by (simp add: privateRequest_with_credentials upgrade_def getRawAgent_def snd_sendPrivate
      descriptor_headers own_prop_privateHeaders headers_of_localConfig js_or_def
      own_prop_Obj lookup_Cons lookup_Nil)

text \<open>
  C5, amended. \<open>upgrade\<close> stores the new pair whatever it holds and whatever was stored
  before. From then on, through any sequence of requests up to the next \<open>upgrade\<close>, the
  agent is unchanged and every private request is the request signed and sent with the
  new pair: it answers as \<open>answer_with newAuth\<close> says. In a private request whose
  override carries no \<open>headers\<close>, the descriptor's \<open>X-MBX-APIKEY\<close> header is the new
  public key; where the override replaces neither \<open>url\<close> nor \<open>data\<close>, the signed body it
  carries (in the query string of a GET, as \<open>data\<close> otherwise) is the one signed with the
  new private key, whose \<open>signature\<close> is the keyed hash under that key.
\<close>

theorem upgrade_installs_the_pair_for_later_calls:
  assumes "\<forall>c \<in> set cs. \<not> is_upgrade c"
  shows
    "auth (upgrade newAuth this) = Some newAuth
     \<and> session (upgrade newAuth this) cs = (upgrade newAuth this, map (answer_with newAuth) cs)
     \<and> privateRequest e (upgrade newAuth this) endpoint verb params c
         = sendPrivate e (privateAgentConfigFor e newAuth endpoint verb params c)
     \<and> privateRequest_rw e (upgrade newAuth this) endpoint verb params c
         = sendPrivate e (privateAgentConfigFor_rw e newAuth endpoint verb params c)
     \<and> (own_prop c ''headers'' = None \<longrightarrow>
          own_prop (privateAgentConfigFor e newAuth endpoint verb params c) ''headers''
            = Some (privateHeaders privateAgentConfig newAuth (localConfig c))
          \<and> own_prop (privateHeaders privateAgentConfig newAuth (localConfig c)) ''X-MBX-APIKEY''
            = Some (Str (publicKey newAuth)))
     \<and> (own_prop c ''url'' = None \<and> own_prop c ''data'' = None \<longrightarrow>
          own_prop (privateAgentConfigFor e newAuth endpoint verb params c) ''url''
            = Some (Str (if verb = ''GET''
                then ''/'' @ endpoint @ ''?''
                     @ qs_stringify e (body (signMessage e params (privateKey newAuth)))
                else ''/'' @ endpoint))
          \<and> own_prop (privateAgentConfigFor e newAuth endpoint verb params c) ''data''
            = Some (if verb = ''GET'' then Null
                    else body (signMessage e params (privateKey newAuth))))
     \<and> own_prop (body (signMessage e params (privateKey newAuth))) ''signature''
         = Some (Str (createHmac_sha256 e (privateKey newAuth)
             (qs_stringify e (Obj (signedBody e params)))))"
proof -
  have stored: "auth (upgrade newAuth this) = Some newAuth"
    by (simp add: upgrade_def)
  have later: "session (upgrade newAuth this) cs
      = (upgrade newAuth this, map (answer_with newAuth) cs)"
    using assms stored by (rule session_without_upgrade)
  have sent: "privateRequest e (upgrade newAuth this) endpoint verb params c
      = sendPrivate e (privateAgentConfigFor e newAuth endpoint verb params c)"
    using stored by (rule privateRequest_with_credentials)
  have sent_rw: "privateRequest_rw e (upgrade newAuth this) endpoint verb params c
      = sendPrivate e (privateAgentConfigFor_rw e newAuth endpoint verb params c)"
    using stored by (rule privateRequest_rw_with_credentials)
  have key: "own_prop c ''headers'' = None \<longrightarrow>
      own_prop (privateAgentConfigFor e newAuth endpoint verb params c) ''headers''
        = Some (privateHeaders privateAgentConfig newAuth (localConfig c))
      \<and> own_prop (privateHeaders privateAgentConfig newAuth (localConfig c)) ''X-MBX-APIKEY''
        = Some (Str (publicKey newAuth))"
    by (simp add: api_key_header_without_header_override)
  have placed: "own_prop c ''url'' = None \<and> own_prop c ''data'' = None \<longrightarrow>
      own_prop (privateAgentConfigFor e newAuth endpoint verb params c) ''url''
        = Some (Str (if verb = ''GET''
            then ''/'' @ endpoint @ ''?''
                 @ qs_stringify e (body (signMessage e params (privateKey newAuth)))
            else ''/'' @ endpoint))
      \<and> own_prop (privateAgentConfigFor e newAuth endpoint verb params c) ''data''
        = Some (if verb = ''GET'' then Null
                else body (signMessage e params (privateKey newAuth)))"
    by (simp add: own_prop_privateAgentConfigFor own_prop_localConfig own_prop_defaultConfig)
  have signed: "own_prop (body (signMessage e params (privateKey newAuth))) ''signature''
      = Some (Str (createHmac_sha256 e (privateKey newAuth)
          (qs_stringify e (Obj (signedBody e params)))))"
    by (simp add: own_prop_body_signMessage digest_signMessage)
  from stored later sent sent_rw key placed signed show ?thesis by blast
qed

theorem upgrade_installs_the_pair_for_later_calls_witness:
  "\<not> is_upgrade (PrivateRequest (example_env transport_ok) ''api/v3/account'' ''GET'' Null Null)
   \<and> \<not> is_upgrade (PublicRequest (example_env transport_ok) ''api/v1/time'' Null Null)
   \<and> \<not> is_upgrade (PrivateRequest (example_env transport_refused) ''api/v3/order'' ''POST''
          (Obj [(''symbol'', Str ''BTCUSDT'')]) Null)
   \<and> own_prop Null ''headers'' = None \<and> own_prop Null ''url'' = None
   \<and> own_prop Null ''data'' = None
   \<and> fst (session (upgrade \<lparr>publicKey = ''pk2'', privateKey = ''sk2''\<rparr>
              (getRawAgent (Some \<lparr>publicKey = ''pk'', privateKey = ''sk''\<rparr>)))
            [PrivateRequest (example_env transport_ok) ''api/v3/account'' ''GET'' Null Null,
             PublicRequest (example_env transport_ok) ''api/v1/time'' Null Null,
             PrivateRequest (example_env transport_refused) ''api/v3/order'' ''POST''
               (Obj [(''symbol'', Str ''BTCUSDT'')]) Null])
       = \<lparr>auth = Some \<lparr>publicKey = ''pk2'', privateKey = ''sk2''\<rparr>\<rparr>
   \<and> own_prop (privateHeaders privateAgentConfig \<lparr>publicKey = ''pk2'', privateKey = ''sk2''\<rparr>
         (localConfig Null)) ''X-MBX-APIKEY'' = Some (Str ''pk2'')
   \<and> own_prop (privateAgentConfigFor (example_env transport_ok)
         \<lparr>publicKey = ''pk2'', privateKey = ''sk2''\<rparr> ''api/v3/order'' ''POST''
         (Obj [(''symbol'', Str ''BTCUSDT'')]) Null) ''data''
       = Some (Obj [(''symbol'', Str ''BTCUSDT''),
                    (''timestamp'', Num 1500000000000),
                    (''signature'',
                     Str ''hmac-sha256(sk2,symbol=BTCUSDT&timestamp=1500000000000)'')])"
proof -
  let ?cs = "[PrivateRequest (example_env transport_ok) ''api/v3/account'' ''GET'' Null Null,
              PublicRequest (example_env transport_ok) ''api/v1/time'' Null Null,
              PrivateRequest (example_env transport_refused) ''api/v3/order'' ''POST''
                (Obj [(''symbol'', Str ''BTCUSDT'')]) Null]"
  have n: "\<forall>c \<in> set ?cs. \<not> is_upgrade c"
    by simp
  have h: "own_prop Null ''headers'' = None" "own_prop Null ''url'' = None"
    "own_prop Null ''data'' = None"
    by (simp_all add: own_prop_not_object)
  have b: "body (signMessage (example_env transport_ok) (Obj [(''symbol'', Str ''BTCUSDT'')])
        ''sk2'')
      = Obj [(''symbol'', Str ''BTCUSDT''),
             (''timestamp'', Num 1500000000000),
             (''signature'', Str ''hmac-sha256(sk2,symbol=BTCUSDT&timestamp=1500000000000)'')]"
    by (simp add: eval_sign eval_literal eval_qs)
  have u: "upgrade \<lparr>publicKey = ''pk2'', privateKey = ''sk2''\<rparr>
        (getRawAgent (Some \<lparr>publicKey = ''pk'', privateKey = ''sk''\<rparr>))
      = \<lparr>auth = Some \<lparr>publicKey = ''pk2'', privateKey = ''sk2''\<rparr>\<rparr>"
    by (simp add: upgrade_def getRawAgent_def)
  from upgrade_installs_the_pair_for_later_calls
    [OF n, of "\<lparr>publicKey = ''pk2'', privateKey = ''sk2''\<rparr>"
      "getRawAgent (Some \<lparr>publicKey = ''pk'', privateKey = ''sk''\<rparr>)"
      "example_env transport_ok" "''api/v3/order''" "''POST''"
      "Obj [(''symbol'', Str ''BTCUSDT'')]" Null]
    n h b u
  show ?thesis by simp
qed

section \<open>Removing a key\<close>









lemma distinct_signedBody:
  "distinct (map fst (signedBody e B))" "distinct (map fst (signedBody_rw e B))"
  by (simp_all add: signedBody_def signedBody_rw_def map_fst_object_literal distinct_own_keys)

lemma signedBody_entry:
  assumes "lookup (signedBody e B) k = Some v"
  shows "(k, v) \<in> set (signedBody e B)"
proof -
  from assms have "map_of (signedBody e B) k = Some v"
    by (simp only: lookup_distinct [OF distinct_signedBody(1)])
  then show ?thesis by (rule map_of_SomeD)
qed

lemma signedBody_rw_entry:
  assumes "lookup (signedBody_rw e B) k = Some v"
  shows "(k, v) \<in> set (signedBody_rw e B)"
proof -
  from assms have "map_of (signedBody_rw e B) k = Some v"
    by (simp only: lookup_distinct [OF distinct_signedBody(2)])
  then show ?thesis by (rule map_of_SomeD)
qed

section \<open>A body that already carries a signature\<close>







end
